theory Spec2Isabelle
  imports Complex_Main "HOL-Library.Sublist"
begin

section \<open>The voice assistant of the learning platform\<close>

text \<open>
  A shallow embedding of \<^verbatim>\<open>app/static/js/voice-assistant.js\<close>: the class
  \<^verbatim>\<open>VoiceAssistant\<close> becomes a record of its fields together with the parts of the browser
  it reads and writes (the recognition capability, the synthesis queue, the location, the
  pending timers and fetches, the widgets it draws). Every method is a function from state
  to state. Callbacks that the browser runs later (timers, promise continuations) are kept
  in the state as tagged entries and are run by the environment steps \<open>timer_fires\<close> and
  \<open>fetch_settles\<close>. Console output is diagnostic only and is not part of the state.
\<close>

subsection \<open>Strings\<close>

text \<open>
  A JavaScript string is a sequence of UTF-16 code units. The model uses \<^typ>\<open>string\<close>,
  whose characters are the code units \<open>0..255\<close> (Basic Latin and Latin-1 Supplement), and
  gives \<^verbatim>\<open>includes\<close> (here \<open>string_includes\<close>), \<^verbatim>\<open>startsWith\<close>, \<^verbatim>\<open>toLowerCase\<close> and
  \<^verbatim>\<open>trim\<close> their ECMAScript meaning on that range.
\<close>

fun string_includes :: "string \<Rightarrow> string \<Rightarrow> bool" where
  "string_includes [] searchString = (searchString = [])"
| "string_includes (c # cs) searchString =
     (prefix searchString (c # cs) \<or> string_includes cs searchString)"

definition startsWith :: "string \<Rightarrow> string \<Rightarrow> bool" where
  "startsWith str searchString = prefix searchString str"

definition toLowerCase_unit :: "char \<Rightarrow> char" where
  "toLowerCase_unit c =
     (let n = (of_char c :: nat)
      in if (65 \<le> n \<and> n \<le> 90) \<or> (192 \<le> n \<and> n \<le> 222 \<and> n \<noteq> 215)
         then char_of (n + 32) else c)"

definition toLowerCase :: "string \<Rightarrow> string" where
  "toLowerCase str = map toLowerCase_unit str"

definition isWhiteSpace :: "char \<Rightarrow> bool" where
  \<comment> \<open>TAB, LF, VT, FF, CR, SP and NBSP: the white space and line terminators below 256.\<close>
  "isWhiteSpace c = (of_char c \<in> set [9, 10, 11, 12, 13, 32, 160 :: nat])"

definition trim :: "string \<Rightarrow> string" where
  "trim str = rev (dropWhile isWhiteSpace (rev (dropWhile isWhiteSpace str)))"

subsection \<open>Numbers in template text\<close>

text \<open>
  The numbers that end up in spoken sentences are counts and a rounded percentage.
  Payload numbers are rationals (the percentage) or integers (the counts). \<open>Math_round\<close> is
  \<^verbatim>\<open>Math.round\<close>, which rounds half-way cases towards plus infinity. \<open>String_of_int\<close> is
  the text a template literal gives an integer-valued number: its decimal digits when its
  magnitude is below \<open>10^21\<close>, and the exponent form from there on. The exponent form is
  the engine's own (it prints the shortest digits that read back as the same double) and is
  taken as a parameter.
\<close>

fun digits :: "nat \<Rightarrow> string" where
  "digits n = (if n < 10 then [char_of (48 + n)] else digits (n div 10) @ [char_of (48 + n mod 10)])"

declare digits.simps [simp del]

definition String_of_int :: "(int \<Rightarrow> string) \<Rightarrow> int \<Rightarrow> string" where
  "String_of_int exponent i =
     (if \<bar>i\<bar> < 10 ^ 21
      then (if i < 0 then CHR ''-'' # digits (nat (- i)) else digits (nat i))
      else exponent i)"

definition Math_round :: "rat \<Rightarrow> int" where
  "Math_round x = \<lfloor>x + 1 / 2\<rfloor>"

definition or_number :: "'a::zero option \<Rightarrow> 'a \<Rightarrow> 'a" where
  \<comment> \<open>\<^verbatim>\<open>field || fallback\<close> on a numeric field: absent and zero are both falsy.\<close>
  "or_number field fallback =
     (case field of None \<Rightarrow> fallback | Some v \<Rightarrow> if v = 0 then fallback else v)"

definition or_string :: "string option \<Rightarrow> string \<Rightarrow> string" where
  \<comment> \<open>\<^verbatim>\<open>field || fallback\<close> on a text field: absent and empty are both falsy.\<close>
  "or_string field fallback =
     (case field of None \<Rightarrow> fallback | Some v \<Rightarrow> if v = [] then fallback else v)"

subsection \<open>Data\<close>

record voice =
  voice_name :: string
  voice_lang :: string

record utterance =
  utterance_text :: string
  rate :: rat
  pitch :: rat
  volume :: rat
  utterance_voice :: "voice option"

text \<open>The requests made to the recognition capability, in the order they were made.\<close>

datatype recognition_request = Start | Stop

text \<open>The callbacks handed to \<^verbatim>\<open>setTimeout\<close>.\<close>

datatype task =
    RestartListening
  | HideTranscript
  | RunQuickLesson
  | Navigate string

text \<open>The continuations attached to the four \<^verbatim>\<open>fetch\<close> calls.\<close>

datatype reply_handler = NextConceptReply | ProgressReply | StatsReply | AIHelpReply

record concept =
  concept_id :: string
  concept_name :: string

text \<open>
  The JSON object of a response, restricted to the fields the assistant reads; every
  field may be absent.
\<close>

record api_data =
  concepts :: "concept list option"
  completed :: "int option"
  percentage :: "rat option"
  level :: "int option"
  total_points :: "int option"
  current_streak :: "int option"
  learning_style :: "string option"
  optimal_pace :: "string option"
  next_study_time :: "string option"

datatype fetch_outcome = Rejected | Resolved api_data

record voice_ui =
  button_class :: string
  icon_class :: string
  status_text :: string

record state =
  recognition :: bool  \<comment> \<open>\<^verbatim>\<open>this.recognition\<close> is not null\<close>
  synthesis :: bool  \<comment> \<open>\<^verbatim>\<open>window.speechSynthesis\<close> exists\<close>
  isListening :: bool
  isEnabled :: bool
  recognition_requests :: "recognition_request list"
  voices :: "voice list"  \<comment> \<open>what \<^verbatim>\<open>getVoices()\<close> returns\<close>
  utterances :: "utterance list"  \<comment> \<open>the synthesis queue, the one being spoken first\<close>
  pathname :: string  \<comment> \<open>\<^verbatim>\<open>window.location.pathname\<close> of the page\<close>
  location_href :: "string option"  \<comment> \<open>the last value assigned to \<^verbatim>\<open>window.location.href\<close>\<close>
  timers :: "(nat \<times> task) list"  \<comment> \<open>pending \<^verbatim>\<open>setTimeout\<close> callbacks with their delays\<close>
  fetches :: "(string \<times> reply_handler) list"  \<comment> \<open>requests in flight\<close>
  ui :: voice_ui
  transcript_text :: string
  transcript_shown :: bool
  page_startQuickLesson :: bool  \<comment> \<open>\<^verbatim>\<open>typeof startQuickLesson === 'function'\<close>\<close>
  page_resetGraph :: bool
  page_centerGraph :: bool
  page_calls :: "string list"  \<comment> \<open>calls made to the page's own functions\<close>
  random_draws :: "nat \<Rightarrow> rat"  \<comment> \<open>the successive results of \<^verbatim>\<open>Math.random()\<close>\<close>
  random_count :: nat
  exponent_form :: "int \<Rightarrow> string"  \<comment> \<open>the engine's text for numbers from \<open>10^21\<close> on\<close>

subsection \<open>Timers and requests\<close>

definition setTimeout :: "task \<Rightarrow> nat \<Rightarrow> state \<Rightarrow> state" where
  "setTimeout callback delay s = s\<lparr>timers := timers s @ [(delay, callback)]\<rparr>"

definition fetch :: "string \<Rightarrow> reply_handler \<Rightarrow> state \<Rightarrow> state" where
  "fetch url handler s = s\<lparr>fetches := fetches s @ [(url, handler)]\<rparr>"

definition assign_href :: "string \<Rightarrow> state \<Rightarrow> state" where
  "assign_href url s = s\<lparr>location_href := Some url\<rparr>"

definition call_page :: "string \<Rightarrow> state \<Rightarrow> state" where
  "call_page f s = s\<lparr>page_calls := page_calls s @ [f]\<rparr>"

subsection \<open>Speech output\<close>

definition cancel :: "state \<Rightarrow> state" where
  "cancel s = s\<lparr>utterances := []\<rparr>"

definition synthesis_speak :: "utterance \<Rightarrow> state \<Rightarrow> state" where
  "synthesis_speak u s = s\<lparr>utterances := utterances s @ [u]\<rparr>"

definition preferred :: "voice \<Rightarrow> bool" where
  "preferred v =
     (string_includes (voice_name v) ''Google'' \<or> string_includes (voice_name v) ''Microsoft''
      \<or> startsWith (voice_lang v) ''en'')"

definition speak :: "string \<Rightarrow> state \<Rightarrow> state" where
  "speak txt s =
     (if synthesis s then
        let s1 = cancel s;
            preferredVoice = find preferred (voices s1);
            u = \<lparr>utterance_text = txt, rate = 9 / 10, pitch = 1, volume = 8 / 10,
                 utterance_voice = preferredVoice\<rparr>
        in synthesis_speak u s1
      else s)"

subsection \<open>Listening state\<close>

definition updateVoiceUI :: "state \<Rightarrow> state" where
  "updateVoiceUI s = s\<lparr>ui :=
     (if \<not> recognition s then
        \<lparr>button_class = ''voice-assistant-btn disabled'',
         icon_class = ''fas fa-microphone-slash'', status_text = ''Not supported''\<rparr>
      else if isListening s then
        \<lparr>button_class = ''voice-assistant-btn listening'',
         icon_class = ''fas fa-microphone'', status_text = ''Listening...''\<rparr>
      else if isEnabled s then
        \<lparr>button_class = ''voice-assistant-btn'',
         icon_class = ''fas fa-microphone'', status_text = ''Ready to listen''\<rparr>
      else
        \<lparr>button_class = ''voice-assistant-btn'',
         icon_class = ''fas fa-microphone-slash'', status_text = ''Click to activate''\<rparr>)\<rparr>"

text \<open>
  \<^verbatim>\<open>recognition.start()\<close> may throw (the capability is already started); the method
  catches and logs that, so a start request has no other effect on the assistant.
\<close>

definition startListening :: "state \<Rightarrow> state" where
  "startListening s =
     (if recognition s \<and> isEnabled s \<and> \<not> isListening s
      then s\<lparr>recognition_requests := recognition_requests s @ [Start]\<rparr> else s)"

definition stopListening :: "state \<Rightarrow> state" where
  "stopListening s =
     (if recognition s \<and> isListening s
      then s\<lparr>recognition_requests := recognition_requests s @ [Stop]\<rparr> else s)"

definition enable :: "state \<Rightarrow> state" where
  "enable s =
     updateVoiceUI
       (speak ''Voice assistant activated. How can I help you learn?''
         (startListening (s\<lparr>isEnabled := True\<rparr>)))"

definition disable :: "state \<Rightarrow> state" where
  "disable s =
     updateVoiceUI
       (speak ''Voice assistant deactivated.'' (stopListening (s\<lparr>isEnabled := False\<rparr>)))"

definition toggle :: "state \<Rightarrow> state" where
  "toggle s =
     (if \<not> recognition s
      then speak ''Sorry, voice recognition is not supported in your browser.'' s
      else if isEnabled s then disable s else enable s)"

text \<open>The callbacks of the recognition capability.\<close>

definition onstart :: "state \<Rightarrow> state" where
  "onstart s = updateVoiceUI (s\<lparr>isListening := True\<rparr>)"

definition onend :: "state \<Rightarrow> state" where
  "onend s =
     (let s1 = updateVoiceUI (s\<lparr>isListening := False\<rparr>)
      in if isEnabled s1 then setTimeout RestartListening 1000 s1 else s1)"

definition onerror :: "state \<Rightarrow> state" where
  "onerror s = speak ''Sorry, I had trouble understanding. Please try again.'' s"

subsection \<open>Command implementations\<close>

definition startQuickLesson :: "state \<Rightarrow> state" where
  "startQuickLesson s =
     setTimeout RunQuickLesson 1000 (speak ''Starting your next recommended lesson!'' s)"

definition nextConcept :: "state \<Rightarrow> state" where
  "nextConcept s =
     fetch ''/api/adaptive-learning-path'' NextConceptReply
       (speak ''Finding your next concept to learn!'' s)"

definition showProgress :: "state \<Rightarrow> state" where
  "showProgress s = fetch ''/api/progress'' ProgressReply (speak ''Let me check your progress!'' s)"

definition showStats :: "state \<Rightarrow> state" where
  "showStats s =
     fetch ''/api/user-stats'' StatsReply (speak ''Checking your learning statistics!'' s)"

definition getAIHelp :: "state \<Rightarrow> state" where
  "getAIHelp s =
     fetch ''/api/ai-recommendations'' AIHelpReply
       (speak ''Getting AI recommendations for you!'' s)"

definition getAIRecommendation :: "state \<Rightarrow> state" where
  "getAIRecommendation s = getAIHelp s"

definition tips :: "string list" where
  "tips =
     [''Take regular breaks every 25 minutes using the Pomodoro technique.'',
      ''Create visual mind maps to connect related concepts.'',
      ''Practice active recall by explaining concepts out loud.'',
      ''Use spaced repetition to review concepts at increasing intervals.'',
      ''Join study groups to learn collaboratively.'']"

definition getStudyTips :: "state \<Rightarrow> state" where
  \<open>getStudyTips s =
     (let r = random_draws s (random_count s);
          s1 = s\<lparr>random_count := Suc (random_count s)\<rparr>;
          i = \<lfloor>r * of_nat (length tips)\<rfloor>;
          randomTip = (if 0 \<le> i \<and> nat i < length tips then tips ! nat i else ''undefined'')
      in speak (''Here's a study tip: '' @ randomTip) s1)\<close>

definition explainConcept :: "string \<Rightarrow> state \<Rightarrow> state" where
  "explainConcept conceptId s =
     setTimeout (Navigate (''/course/concept/'' @ conceptId)) 1500
       (speak ''Let me explain that concept for you!'' s)"

definition zoomGraph :: "string \<Rightarrow> state \<Rightarrow> state" where
  "zoomGraph direction s =
     (if pathname s = ''/graph''
      then speak (''Zooming '' @ direction @ '' on the knowledge graph!'') s
      else speak ''Please open the knowledge graph first to use zoom commands.'' s)"

definition resetGraph :: "state \<Rightarrow> state" where
  "resetGraph s =
     (if pathname s = ''/graph'' \<and> page_resetGraph s
      then call_page ''resetGraph'' (speak ''Resetting the knowledge graph view!'' s)
      else speak ''Please open the knowledge graph to reset the view.'' s)"

definition centerGraph :: "state \<Rightarrow> state" where
  "centerGraph s =
     (if pathname s = ''/graph'' \<and> page_centerGraph s
      then call_page ''centerGraph'' (speak ''Centering the knowledge graph!'' s)
      else speak ''Please open the knowledge graph to center the view.'' s)"

definition helpMessage :: string where
  \<open>helpMessage = ''I can help you navigate and learn! Try saying: "start learning", "show progress", "next concept", "AI help", "show graph", "go to dashboard", or "show leaderboard". Say "what can you do" for more options.''\<close>

definition showHelp :: "state \<Rightarrow> state" where
  "showHelp s = speak helpMessage s"

definition capabilities :: string where
  \<open>capabilities = ''I can help you with navigation, learning commands, AI assistance, graph controls, and progress tracking. I can also explain concepts, provide study tips, and give you personalized recommendations. Just speak naturally and I'll do my best to help!''\<close>

definition showCapabilities :: "state \<Rightarrow> state" where
  "showCapabilities s = speak capabilities s"

subsection \<open>The command table\<close>

text \<open>
  \<^verbatim>\<open>initializeCommands\<close>: the entries in the order of the object literal, which is the
  order \<^verbatim>\<open>Object.entries\<close> yields them in (no key is an array index). The closures take
  the assistant they are bound to as the state.
\<close>

definition commands :: "(string \<times> (state \<Rightarrow> state)) list" where
  "commands =
     [(''go to dashboard'', assign_href ''/''),
      (''open dashboard'', assign_href ''/''),
      (''show graph'', assign_href ''/graph''),
      (''open graph'', assign_href ''/graph''),
      (''show leaderboard'', assign_href ''/leaderboard''),
      (''open leaderboard'', assign_href ''/leaderboard''),
      (''start learning'', startQuickLesson),
      (''next concept'', nextConcept),
      (''show progress'', showProgress),
      (''my stats'', showStats),
      (''ai help'', getAIHelp),
      (''ai recommendation'', getAIRecommendation),
      (''study tips'', getStudyTips),
      (''zoom in'', zoomGraph ''in''),
      (''zoom out'', zoomGraph ''out''),
      (''reset graph'', resetGraph),
      (''center graph'', centerGraph),
      (''explain probability'', explainConcept ''probability''),
      (''explain statistics'', explainConcept ''statistics''),
      (''explain random variables'', explainConcept ''random_vars''),
      (''help'', showHelp),
      (''what can you do'', showCapabilities),
      (''stop listening'', disable),
      (''mute'', disable)]"

text \<open>
  The table is an object literal, so \<^verbatim>\<open>this.commands[command]\<close> also finds what the
  object inherits from \<^verbatim>\<open>Object.prototype\<close>. Each of these values is truthy. Called with
  no argument, nine of them return without touching the assistant; \<^verbatim>\<open>__defineGetter__\<close>
  and \<^verbatim>\<open>__defineSetter__\<close> throw a TypeError (the accessor is not callable), and
  \<^verbatim>\<open>__proto__\<close> is an object, so calling it throws a TypeError too.
\<close>

datatype js_error = TypeError

definition inherited :: "string \<Rightarrow> (state \<Rightarrow> js_error + state) option" where
  "inherited property =
     (if property \<in> set
           [''constructor'', ''hasOwnProperty'', ''isPrototypeOf'', ''propertyIsEnumerable'',
            ''toLocaleString'', ''toString'', ''valueOf'', ''__lookupGetter__'',
            ''__lookupSetter__'']
      then Some Inr
      else if property \<in> set [''__defineGetter__'', ''__defineSetter__'', ''__proto__'']
      then Some (\<lambda>s. Inl TypeError)
      else None)"

subsection \<open>Matching\<close>

definition handleUnknownCommand :: "string \<Rightarrow> state \<Rightarrow> state" where
  \<open>handleUnknownCommand command s =
     (if string_includes command ''concept'' \<or> string_includes command ''learn''
      then speak ''I can help you learn! Try saying "start learning" or "next concept".'' s
      else if string_includes command ''help'' then showHelp s
      else speak ''I didn't understand that command. Say "help" to see what I can do.'' s)\<close>

text \<open>The loop over the entries, which returns at the first entry that matches.\<close>

fun partial_match :: "string \<Rightarrow> (string \<times> 'a) list \<Rightarrow> 'a option" where
  "partial_match command [] = None"
| "partial_match command ((key, action) # entries) =
     (if string_includes command key \<or> string_includes key command then Some action
      else partial_match command entries)"

definition processCommand :: "string \<Rightarrow> state \<Rightarrow> js_error + state" where
  "processCommand command s =
     (case map_of commands command of
        Some action \<Rightarrow> Inr (action s)
      | None \<Rightarrow>
         (case inherited command of
            Some builtin \<Rightarrow> builtin s
          | None \<Rightarrow>
             (case partial_match command commands of
                Some action \<Rightarrow> Inr (action s)
              | None \<Rightarrow> Inr (handleUnknownCommand command s))))"

subsection \<open>Recognition results\<close>

text \<open>
  A result carries the transcript of its first alternative and its finality flag; an
  event carries the results and the index of the first one that changed.
\<close>

record speech_result =
  transcript :: string
  isFinal :: bool

record speech_event =
  resultIndex :: nat
  results :: "speech_result list"

definition showTranscript :: "string \<Rightarrow> state \<Rightarrow> state" where
  "showTranscript txt s =
     setTimeout HideTranscript 3000 (s\<lparr>transcript_text := txt, transcript_shown := True\<rparr>)"

text \<open>The loop of \<^verbatim>\<open>handleSpeechResult\<close>, with its two accumulators.\<close>

fun accumulate :: "speech_result list \<Rightarrow> string \<times> string \<Rightarrow> string \<times> string" where
  "accumulate [] (finalTranscript, interimTranscript) = (finalTranscript, interimTranscript)"
| "accumulate (r # rs) (finalTranscript, interimTranscript) =
     (if isFinal r then accumulate rs (finalTranscript @ transcript r, interimTranscript)
      else accumulate rs (finalTranscript, interimTranscript @ transcript r))"

definition handleSpeechResult :: "speech_event \<Rightarrow> state \<Rightarrow> js_error + state" where
  "handleSpeechResult event s =
     (let (finalTranscript, interimTranscript) =
            accumulate (drop (resultIndex event) (results event)) ('''', '''');
          s1 = showTranscript
                 (if interimTranscript \<noteq> '''' then interimTranscript else finalTranscript) s
      in if finalTranscript \<noteq> ''''
         then processCommand (trim (toLowerCase finalTranscript)) s1
         else Inr s1)"

subsection \<open>Callbacks run by the browser\<close>

fun run_task :: "task \<Rightarrow> state \<Rightarrow> state" where
  "run_task RestartListening s = startListening s"
| "run_task HideTranscript s = s\<lparr>transcript_shown := False\<rparr>"
| "run_task RunQuickLesson s =
     (if page_startQuickLesson s then call_page ''startQuickLesson'' s
      else assign_href ''/course/list'' s)"
| "run_task (Navigate url) s = assign_href url s"

definition timer_fires :: "nat \<Rightarrow> state \<Rightarrow> state" where
  "timer_fires i s =
     (if i < length (timers s)
      then run_task (snd (timers s ! i)) (s\<lparr>timers := take i (timers s) @ drop (Suc i) (timers s)\<rparr>)
      else s)"

text \<open>
  The promise chains: \<^verbatim>\<open>.then(response => response.json()).then(...).catch(...)\<close>. A
  rejected fetch skips both \<^verbatim>\<open>then\<close> callbacks and runs the \<^verbatim>\<open>catch\<close> callback.
\<close>

definition nextConcept_then :: "api_data \<Rightarrow> state \<Rightarrow> state" where
  \<open>nextConcept_then data s =
     (case concepts data of
        Some (next # _) \<Rightarrow>
          setTimeout (Navigate (''/course/concept/'' @ concept_id next)) 2000
            (speak (''Your next concept is '' @ concept_name next @ ''. Opening it now!'') s)
      | _ \<Rightarrow> speak ''Great job! You've completed all available concepts.'' s)\<close>

definition showProgress_then :: "api_data \<Rightarrow> state \<Rightarrow> state" where
  \<open>showProgress_then data s =
     (let message = ''You've completed '' @ String_of_int (exponent_form s) (or_number (completed data) 0)
            @ '' concepts with '' @ String_of_int (exponent_form s) (Math_round (or_number (percentage data) 0))
            @ ''% overall progress. Keep up the great work!''
      in speak message s)\<close>

definition showStats_then :: "api_data \<Rightarrow> state \<Rightarrow> state" where
  \<open>showStats_then data s =
     (let message = ''You're level '' @ String_of_int (exponent_form s) (or_number (level data) 1)
            @ '' with '' @ String_of_int (exponent_form s) (or_number (total_points data) 0)
            @ '' experience points. You have a ''
            @ String_of_int (exponent_form s) (or_number (current_streak data) 0) @ '' day learning streak!''
      in speak message s)\<close>

definition getAIHelp_then :: "api_data \<Rightarrow> state \<Rightarrow> state" where
  \<open>getAIHelp_then data s =
     (let message = ''Based on your '' @ or_string (learning_style data) ''visual''
            @ '' learning style, I recommend studying at a ''
            @ or_string (optimal_pace data) ''moderate''
            @ '' pace. Your next optimal study time is ''
            @ or_string (next_study_time data) ''now'' @ ''!''
      in speak message s)\<close>

fun settle :: "reply_handler \<Rightarrow> fetch_outcome \<Rightarrow> state \<Rightarrow> state" where
  \<open>settle NextConceptReply (Resolved data) s = nextConcept_then data s\<close>
| \<open>settle NextConceptReply Rejected s =
     speak ''Sorry, I couldn't find your next concept right now.'' s\<close>
| \<open>settle ProgressReply (Resolved data) s = showProgress_then data s\<close>
| \<open>settle ProgressReply Rejected s = speak ''Sorry, I couldn't load your progress right now.'' s\<close>
| \<open>settle StatsReply (Resolved data) s = showStats_then data s\<close>
| \<open>settle StatsReply Rejected s = speak ''Sorry, I couldn't load your stats right now.'' s\<close>
| \<open>settle AIHelpReply (Resolved data) s = getAIHelp_then data s\<close>
| \<open>settle AIHelpReply Rejected s =
     speak ''AI recommendations are being prepared. Please try again in a moment.'' s\<close>

definition fetch_settles :: "nat \<Rightarrow> fetch_outcome \<Rightarrow> state \<Rightarrow> state" where
  "fetch_settles i outcome s =
     (if i < length (fetches s)
      then settle (snd (fetches s ! i)) outcome
             (s\<lparr>fetches := take i (fetches s) @ drop (Suc i) (fetches s)\<rparr>)
      else s)"

subsection \<open>Construction\<close>

text \<open>
  The assistant right after its constructor has run in a page: whether the browser has the
  two speech capabilities, its voices, the page's path and own functions, the random
  numbers it will draw and the engine's exponent form of large numbers.
\<close>

definition VoiceAssistant ::
  "bool \<Rightarrow> bool \<Rightarrow> voice list \<Rightarrow> string \<Rightarrow> bool \<Rightarrow> bool \<Rightarrow> bool \<Rightarrow> (nat \<Rightarrow> rat)
     \<Rightarrow> (int \<Rightarrow> string) \<Rightarrow> state" where
  "VoiceAssistant hasRecognition hasSynthesis vs path quick reset center draws exponent =
     \<lparr>recognition = hasRecognition, synthesis = hasSynthesis, isListening = False,
      isEnabled = False, recognition_requests = [], voices = vs, utterances = [],
      pathname = path, location_href = None, timers = [], fetches = [],
      ui = \<lparr>button_class = ''voice-assistant-btn'', icon_class = ''fas fa-microphone'',
             status_text = ''Click to activate''\<rparr>,
      transcript_text = '''', transcript_shown = False,
      page_startQuickLesson = quick, page_resetGraph = reset, page_centerGraph = center,
      page_calls = [], random_draws = draws, random_count = 0, exponent_form = exponent\<rparr>"

text \<open>A page with both capabilities and one English voice, used for concrete runs.\<close>

definition page :: state where
  "page =
     VoiceAssistant True True [\<lparr>voice_name = ''Samantha'', voice_lang = ''en-US''\<rparr>] ''/''
       False False False (\<lambda>n. 0) (\<lambda>i. ''1e+21'')"

subsection \<open>Names used in the proofs\<close>

text \<open>The keys of the table and the property names of \<^verbatim>\<open>Object.prototype\<close>, as lists.\<close>

definition command_keys :: "string list" where
  "command_keys =
     [''go to dashboard'', ''open dashboard'', ''show graph'', ''open graph'',
      ''show leaderboard'', ''open leaderboard'', ''start learning'', ''next concept'',
      ''show progress'', ''my stats'', ''ai help'', ''ai recommendation'', ''study tips'',
      ''zoom in'', ''zoom out'', ''reset graph'', ''center graph'', ''explain probability'',
      ''explain statistics'', ''explain random variables'', ''help'', ''what can you do'',
      ''stop listening'', ''mute'']"

definition prototype_names :: "string list" where
  "prototype_names =
     [''constructor'', ''hasOwnProperty'', ''isPrototypeOf'', ''propertyIsEnumerable'',
      ''toLocaleString'', ''toString'', ''valueOf'', ''__lookupGetter__'',
      ''__lookupSetter__'', ''__defineGetter__'', ''__defineSetter__'', ''__proto__'']"

text \<open>
  What the loop of \<^verbatim>\<open>handleSpeechResult\<close> is meant to compute: the texts of the final
  results of the batch, concatenated in order, and the same for the interim results.
\<close>

definition final_text :: "speech_event \<Rightarrow> string" where
  "final_text e = concat (map transcript (filter isFinal (drop (resultIndex e) (results e))))"

definition interim_text :: "speech_event \<Rightarrow> string" where
  "interim_text e =
     concat (map transcript (filter (\<lambda>r. \<not> isFinal r) (drop (resultIndex e) (results e))))"

section \<open>Properties\<close>

subsection \<open>Substrings\<close>

lemma string_includes_iff:
  "string_includes str sub \<longleftrightarrow> (\<exists>pre post. str = pre @ sub @ post)"
proof -
  have "string_includes str sub \<longleftrightarrow> sublist sub str"
    by (induction str) (auto simp: sublist_Cons_right)
  then show ?thesis by (simp add: sublist_def)
qed

lemma string_includes_empty: "string_includes str ''''"
  by (cases str) simp_all

subsection \<open>The table\<close>

lemma commands_keys: "map fst commands = command_keys"
  by (simp add: commands_def command_keys_def)

lemma commands_distinct: "distinct (map fst commands)"
  by (simp add: commands_def)

lemma commands_own: "(key, action) \<in> set commands \<Longrightarrow> map_of commands key = Some action"
  using commands_distinct by simp

lemma inherited_names: "inherited command = Some builtin \<Longrightarrow> command \<in> set prototype_names"
  by (auto simp: inherited_def prototype_names_def split: if_splits)

text \<open>
  No inherited property name is a key, contains a key or is contained in one: the
  prototype never interferes with a phrase that the table matches.
\<close>

lemma prototype_names_apart:
  "list_all
     (\<lambda>n. list_all (\<lambda>k. n \<noteq> k \<and> \<not> string_includes n k \<and> \<not> string_includes k n) command_keys)
     prototype_names"
  by code_simp

subsection \<open>The loop over the entries\<close>

lemma partial_match_at:
  "i < length entries \<Longrightarrow> entries ! i = (key, action) \<Longrightarrow>
   string_includes command key \<or> string_includes key command \<Longrightarrow>
   (\<And>j. j < i \<Longrightarrow> \<not> string_includes command (fst (entries ! j))
                  \<and> \<not> string_includes (fst (entries ! j)) command) \<Longrightarrow>
   partial_match command entries = Some action"
proof (induction entries arbitrary: i)
  case Nil
  then show ?case by simp
next
  case (Cons e entries)
  obtain k a where e: "e = (k, a)" by (cases e)
  show ?case
  proof (cases i)
    case 0
    with Cons.prems e show ?thesis by auto
  next
    case (Suc n)
    from Cons.prems(4)[of 0] Suc e
    have nomatch: "\<not> string_includes command k" "\<not> string_includes k command" by auto
    have "partial_match command entries = Some action"
    proof (rule Cons.IH[of n])
      show "n < length entries" using Cons.prems(1) Suc by simp
      show "entries ! n = (key, action)" using Cons.prems(2) Suc by simp
      show "string_includes command key \<or> string_includes key command"
        by (rule Cons.prems(3))
      fix j assume "j < n"
      then show "\<not> string_includes command (fst (entries ! j))
                 \<and> \<not> string_includes (fst (entries ! j)) command"
        using Cons.prems(4)[of "Suc j"] Suc by simp
    qed
    with nomatch e show ?thesis by simp
  qed
qed

lemma partial_match_None:
  "partial_match command entries = None \<longleftrightarrow>
   (\<forall>e \<in> set entries. \<not> string_includes command (fst e) \<and> \<not> string_includes (fst e) command)"
  by (induction entries) (auto split: if_splits)

lemma inherited_no_partial:
  assumes "inherited command = Some builtin"
  shows "partial_match command commands = None"
proof -
  have "command \<in> set prototype_names" using assms by (rule inherited_names)
  then have "\<forall>k \<in> set command_keys. \<not> string_includes command k \<and> \<not> string_includes k command"
    using prototype_names_apart by (auto simp: list_all_iff)
  then have "\<forall>e \<in> set commands. \<not> string_includes command (fst e)
                              \<and> \<not> string_includes (fst e) command"
    unfolding commands_keys[symmetric] by simp
  then show ?thesis by (simp add: partial_match_None)
qed

lemma first_index:
  assumes "\<exists>e \<in> set entries. P e"
  shows "\<exists>i < length entries. P (entries ! i) \<and> (\<forall>j < i. \<not> P (entries ! j))"
proof -
  from assms obtain n where n: "n < length entries \<and> P (entries ! n)"
    by (auto simp: in_set_conv_nth)
  define i where "i = (LEAST n. n < length entries \<and> P (entries ! n))"
  have least: "i < length entries \<and> P (entries ! i)"
    unfolding i_def using n by (rule LeastI)
  moreover have "\<not> P (entries ! j)" if "j < i" for j
  proof
    assume "P (entries ! j)"
    moreover have "j < length entries" using that least by simp
    ultimately have "i \<le> j" unfolding i_def by (intro Least_le) simp
    with that show False by simp
  qed
  ultimately show ?thesis by blast
qed

subsection \<open>Exact matches\<close>

text \<open>
  C1. A phrase that, lower-cased and trimmed, is a key of the command table is dispatched
  to that key's action and to nothing else: \<open>processCommand\<close> on the normalised phrase
  returns the state the action leaves, and a final transcript \<open>p\<close> handled by
  \<open>handleSpeechResult\<close> ends in the action run after the transcript display.
\<close>

theorem exact_match_invokes_action:
  assumes "(key, action) \<in> set commands" and "trim (toLowerCase p) = key"
  shows "processCommand (trim (toLowerCase p)) s = Inr (action s)
       \<and> handleSpeechResult
            \<lparr>resultIndex = 0, results = [\<lparr>transcript = p, isFinal = True\<rparr>]\<rparr> s
           = Inr (action (showTranscript p s))"
proof -
  have own: "map_of commands key = Some action" using assms(1) by (rule commands_own)
  have pc: "processCommand key s' = Inr (action s')" for s'
    by (simp add: processCommand_def own)
  have "key \<noteq> ''''" using assms(1) by (auto simp: commands_def)
  then have "p \<noteq> ''''" using assms(2) by (auto simp: trim_def toLowerCase_def)
  then show ?thesis using pc assms(2) by (simp add: handleSpeechResult_def)
qed

theorem exact_match_invokes_action_witness:
  "processCommand ''show progress'' page = Inr (showProgress page)
   \<and> handleSpeechResult
        \<lparr>resultIndex = 0, results = [\<lparr>transcript = '' Show Progress'', isFinal = True\<rparr>]\<rparr> page
       = Inr (showProgress (showTranscript '' Show Progress'' page))"
proof -
  have n: "trim (toLowerCase '' Show Progress'') = ''show progress''" by code_simp
  have m: "(''show progress'', showProgress) \<in> set commands" by (simp add: commands_def)
  show ?thesis using exact_match_invokes_action[OF m n, of page] n by simp
qed

subsection \<open>Partial matches\<close>

text \<open>
  C2. A phrase that is no key of the table but contains a key, or is contained in one, is
  dispatched to the action of the first such key in the order of the table: there is an
  entry that matches in one of the two directions, no entry before it matches, and
  \<open>processCommand\<close> returns the state its action leaves.
\<close>

theorem partial_match_invokes_first:
  assumes "p \<notin> set (map fst commands)"
      and "\<exists>key \<in> set (map fst commands). string_includes p key \<or> string_includes key p"
  shows "\<exists>i key action. i < length commands \<and> commands ! i = (key, action)
           \<and> (string_includes p key \<or> string_includes key p)
           \<and> (\<forall>j < i. \<not> string_includes p (fst (commands ! j))
                      \<and> \<not> string_includes (fst (commands ! j)) p)
           \<and> processCommand p s = Inr (action s)"
proof -
  let ?P = "\<lambda>e. string_includes p (fst e) \<or> string_includes (fst e) p"
  from assms(2) have "\<exists>e \<in> set commands. ?P e" by auto
  then obtain i where i: "i < length commands" "?P (commands ! i)"
      "\<forall>j < i. \<not> ?P (commands ! j)"
    using first_index[of commands ?P] by blast
  obtain key action where e: "commands ! i = (key, action)" by (cases "commands ! i")
  have pm: "partial_match p commands = Some action"
    using i e by (intro partial_match_at[of i commands key action p]) auto
  have own: "map_of commands p = None" using assms(1) by (simp add: map_of_eq_None_iff)
  have inh: "inherited p = None"
  proof (cases "inherited p")
    case (Some b)
    then have "partial_match p commands = None" by (rule inherited_no_partial)
    with pm show ?thesis by simp
  qed simp
  have "processCommand p s = Inr (action s)" by (simp add: processCommand_def own inh pm)
  with i e show ?thesis by auto
qed

theorem partial_match_invokes_first_witness:
  "processCommand ''please go to dashboard now'' page = Inr (assign_href ''/'' page)"
proof -
  let ?p = "''please go to dashboard now''"
  have key0: "commands ! 0 = (''go to dashboard'', assign_href ''/'')"
    by (simp add: commands_def)
  have a: "?p \<notin> set (map fst commands)"
    unfolding commands_keys by (simp add: command_keys_def)
  have b: "\<exists>key \<in> set (map fst commands). string_includes ?p key \<or> string_includes key ?p"
    unfolding commands_keys by (simp add: command_keys_def)
  obtain i key action where r: "i < length commands" "commands ! i = (key, action)"
      "\<forall>j < i. \<not> string_includes ?p (fst (commands ! j))
               \<and> \<not> string_includes (fst (commands ! j)) ?p"
      "processCommand ?p page = Inr (action page)"
    using partial_match_invokes_first[OF a b, of page] by blast
  have "string_includes ?p (fst (commands ! 0))" unfolding key0 by simp
  with r(3) have "i = 0" by (cases i) auto
  with r(2) key0 have "action = assign_href ''/''" by simp
  with r(4) show ?thesis by simp
qed

subsection \<open>Unknown commands\<close>



text \<open>
  C3. The phrase \<^verbatim>\<open>constructor\<close> is no key of the table and matches no key in either
  direction, yet it does not reach the fallback: \<^verbatim>\<open>this.commands['constructor']\<close> is the
  inherited \<^verbatim>\<open>Object\<close> function, which the first test takes for an exact match and calls.
  Nothing is spoken, where \<open>handleUnknownCommand\<close> would have spoken the apology.
\<close>

theorem inherited_name_is_swallowed:
  \<open>''constructor'' \<notin> set (map fst commands)
   \<and> partial_match ''constructor'' commands = None
   \<and> processCommand ''constructor'' s = Inr s
   \<and> handleUnknownCommand ''constructor'' s
       = speak ''I didn't understand that command. Say "help" to see what I can do.'' s
   \<and> utterances (handleUnknownCommand ''constructor'' page) \<noteq> utterances page\<close>
proof -
  have a: "''constructor'' \<notin> set (map fst commands)"
    unfolding commands_keys by (simp add: command_keys_def)
  have i: "inherited ''constructor'' = Some Inr" by (simp add: inherited_def)
  have b: "partial_match ''constructor'' commands = None" using i by (rule inherited_no_partial)
  have own: "map_of commands ''constructor'' = None"
    using a by (simp add: map_of_eq_None_iff)
  have c: "processCommand ''constructor'' s = Inr s"
    by (simp add: processCommand_def own i)
  have d: \<open>handleUnknownCommand ''constructor'' s'
       = speak ''I didn't understand that command. Say "help" to see what I can do.'' s'\<close> for s'
    by (simp add: handleUnknownCommand_def)
  have e: "utterances (handleUnknownCommand ''constructor'' page) \<noteq> utterances page"
    unfolding d
    by (simp add: speak_def cancel_def synthesis_speak_def Let_def page_def VoiceAssistant_def)
  from a b c d e show ?thesis by simp
qed

subsection \<open>Recognition results\<close>

lemma accumulate_eq:
  "accumulate rs (f, i) =
     (f @ concat (map transcript (filter isFinal rs)),
      i @ concat (map transcript (filter (\<lambda>r. \<not> isFinal r) rs)))"
  by (induction rs arbitrary: f i) auto

lemma handleSpeechResult_eq:
  "handleSpeechResult e s =
     (if final_text e = ''''
      then Inr (showTranscript (interim_text e) s)
      else processCommand (trim (toLowerCase (final_text e)))
             (showTranscript (if interim_text e \<noteq> '''' then interim_text e else final_text e) s))"
proof -
  have acc: "accumulate (drop (resultIndex e) (results e)) ('''', '''')
           = (final_text e, interim_text e)"
    by (simp add: accumulate_eq final_text_def interim_text_def)
  show ?thesis unfolding handleSpeechResult_def acc by (auto simp: Let_def)
qed

text \<open>
  C4. Interim text never reaches \<open>processCommand\<close>. Two batches whose final results (from
  their result index on) are the same, whatever their interim results, have the same final
  text; \<open>handleSpeechResult\<close> either calls \<open>processCommand\<close> for neither (the final text is
  empty) or calls it for both with the same argument, the final text lower-cased and
  trimmed. The interim text only decides what is displayed.
\<close>

theorem interim_text_never_dispatched:
  assumes "filter isFinal (drop (resultIndex e1) (results e1))
         = filter isFinal (drop (resultIndex e2) (results e2))"
  shows "final_text e1 = final_text e2
       \<and> handleSpeechResult e1 s =
           (if final_text e1 = '''' then Inr (showTranscript (interim_text e1) s)
            else processCommand (trim (toLowerCase (final_text e1)))
                   (showTranscript
                      (if interim_text e1 \<noteq> '''' then interim_text e1 else final_text e1) s))
       \<and> handleSpeechResult e2 s =
           (if final_text e1 = '''' then Inr (showTranscript (interim_text e2) s)
            else processCommand (trim (toLowerCase (final_text e1)))
                   (showTranscript
                      (if interim_text e2 \<noteq> '''' then interim_text e2 else final_text e1) s))"
proof -
  have "final_text e1 = final_text e2" using assms by (simp add: final_text_def)
  then show ?thesis by (simp add: handleSpeechResult_eq)
qed

theorem interim_text_never_dispatched_witness:
  "handleSpeechResult
     \<lparr>resultIndex = 1,
      results = [\<lparr>transcript = ''mute'', isFinal = True\<rparr>,
                 \<lparr>transcript = ''go to'', isFinal = False\<rparr>,
                 \<lparr>transcript = ''Help '', isFinal = True\<rparr>]\<rparr> page
     = processCommand ''help'' (showTranscript ''go to'' page)
   \<and> handleSpeechResult
       \<lparr>resultIndex = 0,
        results = [\<lparr>transcript = ''Help '', isFinal = True\<rparr>,
                   \<lparr>transcript = ''stop listening'', isFinal = False\<rparr>]\<rparr> page
     = processCommand ''help'' (showTranscript ''stop listening'' page)"
proof -
  have n: "trim (toLowerCase ''Help '') = ''help''" by code_simp
  show ?thesis
    using interim_text_never_dispatched
      [of "\<lparr>resultIndex = 1,
            results = [\<lparr>transcript = ''mute'', isFinal = True\<rparr>,
                       \<lparr>transcript = ''go to'', isFinal = False\<rparr>,
                       \<lparr>transcript = ''Help '', isFinal = True\<rparr>]\<rparr>"
          "\<lparr>resultIndex = 0,
            results = [\<lparr>transcript = ''Help '', isFinal = True\<rparr>,
                       \<lparr>transcript = ''stop listening'', isFinal = False\<rparr>]\<rparr>" page]
    by (simp add: n final_text_def interim_text_def)
qed

lemma whitespace_lower: "isWhiteSpace c \<Longrightarrow> toLowerCase_unit c = c"
  by (auto simp: isWhiteSpace_def toLowerCase_unit_def Let_def)

text \<open>
  C9. A final transcript that is not empty and consists of white space only is still
  dispatched. It normalises to the empty string, which every key contains, so
  \<open>processCommand\<close> runs the action of the first entry of the table,
  \<^verbatim>\<open>go to dashboard\<close>: the state it returns has \<^verbatim>\<open>/\<close> assigned to the location, and the
  synthesis queue is as it was, so the fallback has spoken nothing.
\<close>

theorem blank_transcript_opens_dashboard:
  assumes "finalTranscript \<noteq> ''''" and "\<forall>c \<in> set finalTranscript. isWhiteSpace c"
  shows "trim (toLowerCase finalTranscript) = ''''
       \<and> handleSpeechResult
            \<lparr>resultIndex = 0, results = [\<lparr>transcript = finalTranscript, isFinal = True\<rparr>]\<rparr> s
           = processCommand '''' (showTranscript finalTranscript s)
       \<and> processCommand '''' s' = Inr (assign_href ''/'' s')
       \<and> commands ! 0 = (''go to dashboard'', assign_href ''/'')
       \<and> (\<exists>after. processCommand '''' s' = Inr after
              \<and> location_href after = Some ''/'' \<and> utterances after = utterances s')
       \<and> (\<exists>after. handleSpeechResult
                      \<lparr>resultIndex = 0,
                       results = [\<lparr>transcript = finalTranscript, isFinal = True\<rparr>]\<rparr> s
                    = Inr after
              \<and> location_href after = Some ''/'' \<and> utterances after = utterances s)"
proof -
  have lower: "toLowerCase finalTranscript = finalTranscript"
    unfolding toLowerCase_def using assms(2) by (intro map_idI) (simp add: whitespace_lower)
  have blank: "dropWhile isWhiteSpace finalTranscript = []" using assms(2) by simp
  have n: "trim (toLowerCase finalTranscript) = ''''" unfolding trim_def lower blank by simp
  have h: "handleSpeechResult
            \<lparr>resultIndex = 0, results = [\<lparr>transcript = finalTranscript, isFinal = True\<rparr>]\<rparr> s
           = processCommand '''' (showTranscript finalTranscript s)"
    using assms(1) n by (simp add: handleSpeechResult_def)
  have p: "processCommand '''' s'' = Inr (assign_href ''/'' s'')" for s''
    by (simp add: processCommand_def commands_def inherited_def)
  have c: "commands ! 0 = (''go to dashboard'', assign_href ''/'')" by (simp add: commands_def)
  have loc: "location_href (assign_href ''/'' s'') = Some ''/''" for s''
    by (simp add: assign_href_def)
  have quiet: "utterances (assign_href ''/'' s'') = utterances s''" for s''
    by (simp add: assign_href_def)
  have shown: "utterances (showTranscript finalTranscript s) = utterances s"
    by (simp add: showTranscript_def setTimeout_def)
  have direct: "\<exists>after. processCommand '''' s' = Inr after
              \<and> location_href after = Some ''/'' \<and> utterances after = utterances s'"
    using p[of s'] loc[of s'] quiet[of s'] by simp
  have spoken: "\<exists>after. handleSpeechResult
                      \<lparr>resultIndex = 0,
                       results = [\<lparr>transcript = finalTranscript, isFinal = True\<rparr>]\<rparr> s
                    = Inr after
              \<and> location_href after = Some ''/'' \<and> utterances after = utterances s"
    using h p[of "showTranscript finalTranscript s"] loc[of "showTranscript finalTranscript s"]
      quiet[of "showTranscript finalTranscript s"] shown by simp
  from n h p[of s'] c direct spoken show ?thesis by blast
qed

theorem blank_transcript_opens_dashboard_witness:
  "handleSpeechResult
     \<lparr>resultIndex = 0, results = [\<lparr>transcript = ''   '', isFinal = True\<rparr>]\<rparr> page
     = Inr (assign_href ''/'' (showTranscript ''   '' page))
   \<and> location_href page = None
   \<and> utterances page = []
   \<and> (\<exists>after. handleSpeechResult
                  \<lparr>resultIndex = 0, results = [\<lparr>transcript = ''   '', isFinal = True\<rparr>]\<rparr> page
                = Inr after
          \<and> location_href after = Some ''/'' \<and> utterances after = [])"
proof -
  have a: "''   '' \<noteq> ''''" by simp
  have b: "\<forall>c \<in> set ''   ''. isWhiteSpace c" by (simp add: isWhiteSpace_def)
  have l: "location_href page = None" by (simp add: page_def VoiceAssistant_def)
  have u: "utterances page = []" by (simp add: page_def VoiceAssistant_def)
  note th = blank_transcript_opens_dashboard[OF a b, of page "showTranscript ''   '' page"]
  from th have one: "handleSpeechResult
     \<lparr>resultIndex = 0, results = [\<lparr>transcript = ''   '', isFinal = True\<rparr>]\<rparr> page
     = Inr (assign_href ''/'' (showTranscript ''   '' page))" by simp
  from th have two: "\<exists>after. handleSpeechResult
                  \<lparr>resultIndex = 0, results = [\<lparr>transcript = ''   '', isFinal = True\<rparr>]\<rparr> page
                = Inr after
          \<and> location_href after = Some ''/'' \<and> utterances after = utterances page" by blast
  from one two l u show ?thesis by simp
qed

subsection \<open>Listening state\<close>

lemmas run_defs = speak_def cancel_def synthesis_speak_def setTimeout_def fetch_def
  assign_href_def call_page_def updateVoiceUI_def startListening_def stopListening_def
  enable_def disable_def onstart_def onend_def Let_def

text \<open>
  C5. The restart scheduled by \<open>onend\<close> looks at \<open>isEnabled\<close> when it fires. If the
  assistant is disabled at that moment, firing a pending restart timer only removes the
  timer. In particular, when \<open>disable\<close> is called after \<open>onend\<close> has scheduled the restart,
  the timer is still pending, and when it fires no start request is made and the assistant
  is not listening.
\<close>

theorem restart_rechecks_enabled:
  "(i < length (timers s) \<and> snd (timers s ! i) = RestartListening \<and> \<not> isEnabled s \<longrightarrow>
      timer_fires i s = s\<lparr>timers := take i (timers s) @ drop (Suc i) (timers s)\<rparr>)
   \<and> (isEnabled s \<longrightarrow>
        timers (disable (onend s)) = timers s @ [(1000, RestartListening)]
      \<and> \<not> isEnabled (disable (onend s))
      \<and> timer_fires (length (timers s)) (disable (onend s))
          = (disable (onend s))\<lparr>timers := timers s\<rparr>
      \<and> recognition_requests (timer_fires (length (timers s)) (disable (onend s)))
          = recognition_requests s
      \<and> \<not> isListening (timer_fires (length (timers s)) (disable (onend s))))"
proof (intro conjI impI)
  assume "i < length (timers s) \<and> snd (timers s ! i) = RestartListening \<and> \<not> isEnabled s"
  then show "timer_fires i s = s\<lparr>timers := take i (timers s) @ drop (Suc i) (timers s)\<rparr>"
    by (simp add: timer_fires_def startListening_def)
next
  assume en: "isEnabled s"
  have t: "timers (disable (onend s)) = timers s @ [(1000, RestartListening)]"
    using en by (simp add: run_defs)
  have e: "\<not> isEnabled (disable (onend s))"
    by (simp add: run_defs)
  have l: "\<not> isListening (disable (onend s))"
    by (simp add: run_defs)
  have r: "recognition_requests (disable (onend s)) = recognition_requests s"
    by (simp add: run_defs)
  have f: "timer_fires (length (timers s)) (disable (onend s))
         = (disable (onend s))\<lparr>timers := timers s\<rparr>"
    using e by (simp add: timer_fires_def t startListening_def)
  show "timers (disable (onend s)) = timers s @ [(1000, RestartListening)]" by (rule t)
  show "\<not> isEnabled (disable (onend s))" by (rule e)
  show "timer_fires (length (timers s)) (disable (onend s))
      = (disable (onend s))\<lparr>timers := timers s\<rparr>" by (rule f)
  show "recognition_requests (timer_fires (length (timers s)) (disable (onend s)))
      = recognition_requests s"
    by (simp add: f r)
  show "\<not> isListening (timer_fires (length (timers s)) (disable (onend s)))"
    by (simp add: f l)
qed

theorem restart_rechecks_enabled_witness:
  "isEnabled (onstart (enable page))
   \<and> isListening (onstart (enable page))
   \<and> timers (disable (onend (onstart (enable page)))) = [(1000, RestartListening)]
   \<and> timer_fires 0 (disable (onend (onstart (enable page))))
       = (disable (onend (onstart (enable page))))\<lparr>timers := []\<rparr>
   \<and> recognition_requests (timer_fires 0 (disable (onend (onstart (enable page))))) = [Start]
   \<and> \<not> isListening (timer_fires 0 (disable (onend (onstart (enable page)))))"
proof -
  have en: "isEnabled (onstart (enable page))"
    by (simp add: run_defs page_def VoiceAssistant_def)
  have li: "isListening (onstart (enable page))"
    by (simp add: run_defs page_def VoiceAssistant_def)
  have t0: "timers (onstart (enable page)) = []"
    by (simp add: run_defs page_def VoiceAssistant_def)
  have r0: "recognition_requests (onstart (enable page)) = [Start]"
    by (simp add: run_defs page_def VoiceAssistant_def)
  note c = restart_rechecks_enabled[of 0 "onstart (enable page)", THEN conjunct2, rule_format,
      OF en, unfolded t0 r0 list.size(3) append_Nil]
  from en li c show ?thesis by blast
qed

subsection \<open>Speech output\<close>

text \<open>
  C6. When the synthesis capability exists, \<open>speak\<close> empties the queue before it submits
  its utterance: whatever was queued, only the new text is in the queue afterwards. After
  two calls in a row only the second text is left, and the state is the one the second
  call alone would have produced.
\<close>

theorem speak_cancels_previous:
  assumes "synthesis s"
  shows "map utterance_text (utterances (speak txt s)) = [txt]
       \<and> map utterance_text (utterances (speak second (speak first s))) = [second]
       \<and> speak second (speak first s) = speak second s"
  using assms by (simp add: speak_def cancel_def synthesis_speak_def Let_def)

theorem speak_cancels_previous_witness:
  "map utterance_text (utterances (speak ''second'' (speak ''first'' (speak ''zero'' page))))
     = [''second'']"
proof -
  have "synthesis (speak ''zero'' page)"
    by (simp add: speak_def cancel_def synthesis_speak_def Let_def page_def VoiceAssistant_def)
  from speak_cancels_previous[OF this, of "''second''" "''second''" "''first''"]
  show ?thesis by simp
qed

subsection \<open>Replies\<close>

lemma Math_round_points:
  "Math_round (627 / 10) = 63" "Math_round (312 / 5) = 62" "Math_round (125 / 2) = 63"
  by (code_simp, code_simp, code_simp)

lemma small_numbers_text: "String_of_int exponent 5 = ''5''" "String_of_int exponent 63 = ''63''"
proof -
  have d: "digits 5 = ''5''" "digits 63 = ''63''" by (code_simp, code_simp)
  show "String_of_int exponent 5 = ''5''" "String_of_int exponent 63 = ''63''"
    by (simp_all add: String_of_int_def d)
qed

lemma speak_queue: "synthesis s \<Longrightarrow> map utterance_text (utterances (speak txt s)) = [txt]"
  by (simp add: speak_def cancel_def synthesis_speak_def Let_def)

lemma speak_synthesis: "synthesis (speak txt s) = synthesis s"
  by (simp add: speak_def cancel_def synthesis_speak_def Let_def)

text \<open>
  C7. The phrase \<^verbatim>\<open>show progress\<close> is an exact match; its action requests
  \<^verbatim>\<open>/api/progress\<close>. When that request resolves with 5 completed concepts and a percentage
  of 62.7 (other fields arbitrary), the handler speaks the sentence with 5 and 63 in it:
  where the synthesis capability exists, the queue then holds exactly that sentence. The
  percentage is rounded to the nearest integer, a half upwards.
\<close>

theorem show_progress_scenario:
  \<open>processCommand ''show progress'' s = Inr (showProgress s)
   \<and> fetches (showProgress s) = fetches s @ [(''/api/progress'', ProgressReply)]
   \<and> fetch_settles (length (fetches s))
        (Resolved (d\<lparr>completed := Some 5, percentage := Some (627 / 10)\<rparr>)) (showProgress s)
       = speak ''You've completed 5 concepts with 63% overall progress. Keep up the great work!''
           (speak ''Let me check your progress!'' s)
   \<and> (synthesis s \<longrightarrow>
        map utterance_text (utterances (showProgress s)) = [''Let me check your progress!'']
      \<and> map utterance_text
           (utterances
              (fetch_settles (length (fetches s))
                 (Resolved (d\<lparr>completed := Some 5, percentage := Some (627 / 10)\<rparr>))
                 (showProgress s)))
          = [''You've completed 5 concepts with 63% overall progress. Keep up the great work!''])
   \<and> Math_round (627 / 10) = 63 \<and> Math_round (312 / 5) = 62 \<and> Math_round (125 / 2) = 63\<close>
proof -
  have own: "map_of commands ''show progress'' = Some showProgress"
    by (simp add: commands_def)
  have one: "processCommand ''show progress'' s = Inr (showProgress s)"
    by (simp add: processCommand_def own)
  have two: "fetches (showProgress s) = fetches s @ [(''/api/progress'', ProgressReply)]"
    by (simp add: showProgress_def fetch_def speak_def cancel_def synthesis_speak_def Let_def)
  have msg: \<open>showProgress_then (d\<lparr>completed := Some 5, percentage := Some (627 / 10)\<rparr>) s'
           = speak ''You've completed 5 concepts with 63% overall progress. Keep up the great work!''
               s'\<close> for s'
    by (simp add: showProgress_then_def or_number_def Math_round_points small_numbers_text)
  have rest: "(showProgress s)\<lparr>fetches := fetches s\<rparr> = speak ''Let me check your progress!'' s"
    by (simp add: showProgress_def fetch_def speak_def cancel_def synthesis_speak_def Let_def)
  have three: \<open>fetch_settles (length (fetches s))
        (Resolved (d\<lparr>completed := Some 5, percentage := Some (627 / 10)\<rparr>)) (showProgress s)
       = speak ''You've completed 5 concepts with 63% overall progress. Keep up the great work!''
           (speak ''Let me check your progress!'' s)\<close>
    by (simp add: fetch_settles_def two msg rest)
  have first: "map utterance_text (utterances (showProgress s)) = [''Let me check your progress!'']"
    if "synthesis s"
    using speak_queue[OF that, of "''Let me check your progress!''"]
    by (simp add: showProgress_def fetch_def)
  have queue: \<open>map utterance_text
           (utterances
              (fetch_settles (length (fetches s))
                 (Resolved (d\<lparr>completed := Some 5, percentage := Some (627 / 10)\<rparr>))
                 (showProgress s)))
          = [''You've completed 5 concepts with 63% overall progress. Keep up the great work!'']\<close>
    if "synthesis s"
    unfolding three using that by (intro speak_queue) (simp add: speak_synthesis)
  from one two three first queue Math_round_points show ?thesis by blast
qed

theorem show_progress_scenario_witness:
  \<open>synthesis page
   \<and> map utterance_text (utterances (showProgress page)) = [''Let me check your progress!'']
   \<and> map utterance_text
        (utterances
           (fetch_settles 0
              (Resolved \<lparr>concepts = None, completed = Some 5, percentage = Some (627 / 10),
                         level = None, total_points = None, current_streak = None,
                         learning_style = None, optimal_pace = None, next_study_time = None\<rparr>)
              (showProgress page)))
       = [''You've completed 5 concepts with 63% overall progress. Keep up the great work!'']\<close>
proof -
  have syn: "synthesis page" by (simp add: page_def VoiceAssistant_def)
  have f0: "fetches page = []" by (simp add: page_def VoiceAssistant_def)
  have upd: "\<lparr>concepts = None, completed = None, percentage = None,
               level = None, total_points = None, current_streak = None,
               learning_style = None, optimal_pace = None, next_study_time = None\<rparr>
              \<lparr>completed := Some 5, percentage := Some (627 / 10)\<rparr>
            = \<lparr>concepts = None, completed = Some 5, percentage = Some (627 / 10),
               level = None, total_points = None, current_streak = None,
               learning_style = None, optimal_pace = None, next_study_time = None\<rparr>"
    by simp
  note th = show_progress_scenario
    [of page "\<lparr>concepts = None, completed = None, percentage = None,
                level = None, total_points = None, current_streak = None,
                learning_style = None, optimal_pace = None, next_study_time = None\<rparr>",
     unfolded f0 list.size(3) upd]
  from th syn show ?thesis by blast
qed

text \<open>
  C8. The phrase \<^verbatim>\<open>next concept\<close> requests the adaptive learning path. When that request
  is rejected, the apology is spoken (where the synthesis capability exists, the queue then
  holds exactly the apology); the location is not assigned, no timer is scheduled (so no
  navigation follows) and no request is left in flight (so nothing is retried).
\<close>

theorem next_concept_rejected:
  \<open>processCommand ''next concept'' s = Inr (nextConcept s)
   \<and> fetches (nextConcept s)
       = fetches s @ [(''/api/adaptive-learning-path'', NextConceptReply)]
   \<and> fetch_settles (length (fetches s)) Rejected (nextConcept s)
       = speak ''Sorry, I couldn't find your next concept right now.''
           (speak ''Finding your next concept to learn!'' s)
   \<and> location_href (fetch_settles (length (fetches s)) Rejected (nextConcept s))
       = location_href s
   \<and> timers (fetch_settles (length (fetches s)) Rejected (nextConcept s)) = timers s
   \<and> fetches (fetch_settles (length (fetches s)) Rejected (nextConcept s)) = fetches s
   \<and> (synthesis s \<longrightarrow>
        map utterance_text
          (utterances (fetch_settles (length (fetches s)) Rejected (nextConcept s)))
         = [''Sorry, I couldn't find your next concept right now.''])\<close>
proof -
  have own: "map_of commands ''next concept'' = Some nextConcept" by (simp add: commands_def)
  have one: "processCommand ''next concept'' s = Inr (nextConcept s)"
    by (simp add: processCommand_def own)
  have two: "fetches (nextConcept s)
           = fetches s @ [(''/api/adaptive-learning-path'', NextConceptReply)]"
    by (simp add: nextConcept_def fetch_def speak_def cancel_def synthesis_speak_def Let_def)
  have rest: "(nextConcept s)\<lparr>fetches := fetches s\<rparr>
            = speak ''Finding your next concept to learn!'' s"
    by (simp add: nextConcept_def fetch_def speak_def cancel_def synthesis_speak_def Let_def)
  have three: \<open>fetch_settles (length (fetches s)) Rejected (nextConcept s)
       = speak ''Sorry, I couldn't find your next concept right now.''
           (speak ''Finding your next concept to learn!'' s)\<close>
    by (simp add: fetch_settles_def two rest)
  have four: "location_href (speak a (speak b s)) = location_href s"
             "timers (speak a (speak b s)) = timers s"
             "fetches (speak a (speak b s)) = fetches s" for a b
    by (simp_all add: speak_def cancel_def synthesis_speak_def Let_def)
  have queue: \<open>map utterance_text
          (utterances (fetch_settles (length (fetches s)) Rejected (nextConcept s)))
         = [''Sorry, I couldn't find your next concept right now.'']\<close>
    if "synthesis s"
    unfolding three using that by (intro speak_queue) (simp add: speak_synthesis)
  from one two three four queue show ?thesis by simp
qed

theorem next_concept_rejected_witness:
  \<open>synthesis page
   \<and> map utterance_text (utterances (fetch_settles 0 Rejected (nextConcept page)))
       = [''Sorry, I couldn't find your next concept right now.'']
   \<and> location_href (fetch_settles 0 Rejected (nextConcept page)) = None
   \<and> timers (fetch_settles 0 Rejected (nextConcept page)) = []
   \<and> fetches (fetch_settles 0 Rejected (nextConcept page)) = []\<close>
proof -
  have syn: "synthesis page" by (simp add: page_def VoiceAssistant_def)
  have f0: "fetches page = []" by (simp add: page_def VoiceAssistant_def)
  have l0: "location_href page = None" by (simp add: page_def VoiceAssistant_def)
  have t0: "timers page = []" by (simp add: page_def VoiceAssistant_def)
  note th = next_concept_rejected[of page, unfolded f0 l0 t0 list.size(3)]
  from th syn show ?thesis by blast
qed

end
